theory Spec2Isabelle
  imports Main "HOL-Library.Word"
begin

section \<open>The gitgen package (pkg/gitgen/mod.go)\<close>

text \<open>
  The package obtains a diff between two references, selects a fixed instruction by
  task type, hands both to a model backend and returns the generated text. Everything
  the package calls outside itself (the \<^verbatim>\<open>git\<close> executable, the go-git library, the
  \<^verbatim>\<open>models\<close> package) is a field of an environment record, and every call that leaves
  the process is written to a trace, so that statements about which calls happen, in
  which order and how often, are statements about the value a function returns.
\<close>

subsection \<open>Task types and the instruction selector\<close>

text \<open>
  \<^verbatim>\<open>type PromptType int\<close> with three constants numbered by \<^verbatim>\<open>iota\<close>. A Go \<^verbatim>\<open>int\<close> is a
  32- or 64-bit signed integer; every such value is an \<^typ>\<open>int\<close>, and nothing below
  does arithmetic on a task type.
\<close>

type_synonym PromptType = int

definition PromptCommitMessage :: PromptType where
  "PromptCommitMessage = 0"

definition PromptCodeReview :: PromptType where
  "PromptCodeReview = 1"

definition PromptTestCase :: PromptType where
  "PromptTestCase = 2"

text \<open>
  \<^verbatim>\<open>getPrompt\<close>: \<^verbatim>\<open>var prompt string\<close> starts as the empty string; the \<^verbatim>\<open>switch\<close> has
  three cases and no \<^verbatim>\<open>default\<close>, so any other value leaves it empty. The function
  has one result, a string: there is no error result.
\<close>

definition getPrompt :: "PromptType \<Rightarrow> string" where
  "getPrompt promptType =
    (if promptType = PromptCommitMessage then
       ''please generate a git commit message with a simple explanation from the changes stated above which is an output of a git diff command. all response of this message should be wrapped in a markdown format because it will be shared in a text-only terminal interface.''
     else if promptType = PromptCodeReview then
       ''please perform a efficient and concise code review which points out crucial improvements could be changed on the target code. the target code is stated above which is an output of a git diff command. all response of this message should be wrapped in a markdown format because it will be shared in a text-only terminal interface.''
     else if promptType = PromptTestCase then
       ''Please generate detailed test cases from the changes stated above, which is an output of a git diff command. The test cases should be comprehensive and cover all the modifications, additions, and deletions in the code. All responses to this message should be wrapped in a markdown format because it will be shared in a text-only terminal interface. Ensure that the test cases include the following details'' @ [CHR 0x0A] @
       ''- Description,'' @ [CHR 0x0A] @
       ''- Steps, Detailed steps to execute the test case. '' @ [CHR 0x0A] @
       ''- Expected Result, The expected outcome of the test case.'' @ [CHR 0x0A] @
       ''- Actual Result, (This will be filled out during testing.)''
     else [])"

subsection \<open>Errors\<close>

text \<open>
  Go's \<^verbatim>\<open>error\<close> values. \<open>ErrUnknownPlatform\<close> is the package's own variable
  (\<^verbatim>\<open>errors.New("unknown platform")\<close>); \<open>Wrapped\<close> is what \<^verbatim>\<open>fmt.Errorf\<close> with a \<^verbatim>\<open>%w\<close> verb
  builds (the formatted message and the wrapped error); the next three are go-git's
  \<^verbatim>\<open>plumbing.ErrReferenceNotFound\<close>, \<^verbatim>\<open>plumbing.ErrObjectNotFound\<close> and
  \<^verbatim>\<open>storer.ErrMaxResolveRecursion\<close>; \<open>Foreign\<close> is any other error made outside the
  package (by \<^verbatim>\<open>os\<close>, \<^verbatim>\<open>os/exec\<close>, go-git or a model backend), known by its message.
\<close>

datatype error =
    ErrUnknownPlatform
  | Wrapped string error
  | ErrReferenceNotFound
  | ErrObjectNotFound
  | ErrMaxResolveRecursion
  | Foreign string

fun Error :: "error \<Rightarrow> string" where
  "Error ErrUnknownPlatform = ''unknown platform''"
| "Error (Wrapped msg inner) = msg"
| "Error ErrReferenceNotFound = ''reference not found''"
| "Error ErrObjectNotFound = ''object not found''"
| "Error ErrMaxResolveRecursion = ''max. recursion level reached''"
| "Error (Foreign msg) = msg"

text \<open>\<^verbatim>\<open>fmt.Errorf("unknown platform %s - %w", platform, err)\<close>.\<close>

definition Errorf_unknown_platform :: "string \<Rightarrow> error \<Rightarrow> error" where
  "Errorf_unknown_platform platform err =
     Wrapped (''unknown platform '' @ platform @ '' - '' @ Error err) err"

text \<open>\<^verbatim>\<open>errors.Is\<close>: the error itself or an error anywhere down its chain of wrapped errors.\<close>

fun errors_Is :: "error \<Rightarrow> error \<Rightarrow> bool" where
  "errors_Is (Wrapped msg inner) target =
     (Wrapped msg inner = target \<or> errors_Is inner target)"
| "errors_Is err target = (err = target)"

subsection \<open>Configuration and the models package\<close>

text \<open>
  Modelled from the spec: \<^verbatim>\<open>models.ModelConfig\<close>, whose declaration is in \<^verbatim>\<open>pkg/models\<close>
  and not in \<^verbatim>\<open>mod.go\<close>. The fields are those the struct literal in \<^verbatim>\<open>Do\<close> sets; their
  types follow section 6 of the specification (strings, and integers for the token
  limit and the timeout in seconds).
\<close>

record ModelConfig =
  PlatformApiKey :: string
  Platform :: string
  Model :: string
  PromptMaxTokens :: int
  PromptRequestTimeoutSeconds :: int

text \<open>
  Modelled from the spec: \<^verbatim>\<open>Config\<close>, whose declaration is in another file of the
  package. The fields are those \<^verbatim>\<open>mod.go\<close> reads; their types follow section 6 of the
  specification. The five backend fields, which \<^verbatim>\<open>ModelConfig\<close> has under the same names,
  carry the prefix \<open>cfg\<close> here, a field name being global in a theory.
\<close>

record Config =
  SourceRef :: string
  DestinationRef :: string
  cfgPlatformApiKey :: string
  cfgPlatform :: string
  cfgModel :: string
  cfgPromptMaxTokens :: int
  cfgPromptRequestTimeoutSeconds :: int

text \<open>
  Modelled from the spec: the value \<^verbatim>\<open>ExecPrompt\<close> returns, whose declaration is in
  \<^verbatim>\<open>pkg/models\<close>. \<^verbatim>\<open>Do\<close> reads its field \<^verbatim>\<open>Content\<close>, the generated text content of section
  3 of the specification.
\<close>

record Response =
  Content :: string

text \<open>
  \<^verbatim>\<open>context.Context\<close> values by the way they are built. \<^verbatim>\<open>context.Background()\<close> is the
  root: it has no deadline and is never cancelled. The package builds no other.
\<close>

datatype Context =
    Background
  | WithCancel Context
  | WithTimeout Context int

fun has_deadline :: "Context \<Rightarrow> bool" where
  "has_deadline Background = False"
| "has_deadline (WithCancel parent) = has_deadline parent"
| "has_deadline (WithTimeout parent d) = True"

fun cancellable :: "Context \<Rightarrow> bool" where
  "cancellable Background = False"
| "cancellable (WithCancel parent) = True"
| "cancellable (WithTimeout parent d) = True"

subsection \<open>The go-git repository interface\<close>

text \<open>
  The part of the go-git library that \<^verbatim>\<open>runDiffWithGoGit\<close> calls. The library is not
  part of the repository; what \<^verbatim>\<open>mod.go\<close> relies on is written down here after the
  library's own sources (\<^verbatim>\<open>plumbing/reference.go\<close>, \<^verbatim>\<open>plumbing/storer/reference.go\<close>,
  \<^verbatim>\<open>repository.go\<close>, \<^verbatim>\<open>plumbing/object/commit.go\<close>): how a reference is read with and
  without resolution, and what the hash of a reference is. What a repository holds,
  how two trees are compared and how the changes are printed stay open: they are
  fields of a record.

  A \<^verbatim>\<open>plumbing.Hash\<close> is 20 bytes and \<^verbatim>\<open>plumbing.ZeroHash\<close> is all zeros. A
  \<^verbatim>\<open>plumbing.Reference\<close> is either a hash reference (name and hash) or a symbolic
  reference (name and the name of its target); \<^verbatim>\<open>Hash()\<close> returns the hash field, which a
  symbolic reference leaves at its zero value.
\<close>

type_synonym Hash = "160 word"

definition ZeroHash :: Hash where
  "ZeroHash = 0"

datatype Reference =
    HashReference string Hash
  | SymbolicReference string string

fun Reference_Hash :: "Reference \<Rightarrow> Hash" where
  "Reference_Hash (HashReference n h) = h"
| "Reference_Hash (SymbolicReference n target) = ZeroHash"

text \<open>A commit names its tree by hash; a tree is its entries, path and blob hash.\<close>

record Commit =
  TreeHash :: Hash

type_synonym Tree = "(string \<times> Hash) list"

text \<open>
  An opened repository, by what can be read from it: \<^verbatim>\<open>repo.Storer.Reference(name)\<close>
  (the stored reference as it is, symbolic or not), \<^verbatim>\<open>repo.CommitObject(hash)\<close>, and the
  tree lookup behind \<^verbatim>\<open>commit.Tree()\<close>.
\<close>

record Repository =
  Storer_Reference :: "string \<Rightarrow> error + Reference"
  CommitObject :: "Hash \<Rightarrow> error + Commit"
  TreeObject :: "Hash \<Rightarrow> error + Tree"

definition Commit_Tree :: "Repository \<Rightarrow> Commit \<Rightarrow> error + Tree" where
  "Commit_Tree repo c = TreeObject repo (TreeHash c)"

text \<open>
  \<^verbatim>\<open>storer.ResolveReference\<close>: follow symbolic references until a hash reference is
  reached, giving up after \<^verbatim>\<open>MaxResolveRecursion\<close> steps.
\<close>

definition MaxResolveRecursion :: nat where
  "MaxResolveRecursion = 1024"

function resolveReference ::
  "(string \<Rightarrow> error + Reference) \<Rightarrow> Reference \<Rightarrow> nat \<Rightarrow> error + Reference" where
  "resolveReference s (HashReference n h) recursion = Inr (HashReference n h)"
| "resolveReference s (SymbolicReference n target) recursion =
     (if recursion > MaxResolveRecursion then Inl ErrMaxResolveRecursion
      else (case s target of
              Inl err \<Rightarrow> Inl err
            | Inr t \<Rightarrow> resolveReference s t (recursion + 1)))"
  by pat_completeness auto
termination
  by (relation "measure (\<lambda>(s, r, recursion). Suc MaxResolveRecursion - recursion)") auto

definition ResolveReference ::
  "(string \<Rightarrow> error + Reference) \<Rightarrow> string \<Rightarrow> error + Reference" where
  "ResolveReference s n =
     (case s n of
        Inl err \<Rightarrow> Inl err
      | Inr r \<Rightarrow> resolveReference s r 0)"

text \<open>
  \<^verbatim>\<open>repo.Reference(name, resolved)\<close>: with \<^verbatim>\<open>resolved\<close> set, symbolic references are
  resolved; otherwise the stored reference is returned as it is.
\<close>

definition Repository_Reference :: "Repository \<Rightarrow> string \<Rightarrow> bool \<Rightarrow> error + Reference" where
  "Repository_Reference repo name resolved =
     (if resolved then ResolveReference (Storer_Reference repo) name
      else Storer_Reference repo name)"

definition HEAD :: string where
  "HEAD = ''HEAD''"

text \<open>
  A change of \<^verbatim>\<open>object.Changes\<close>, as \<^verbatim>\<open>tree.Diff\<close> returns them: what happened and to
  which path.
\<close>

datatype Action = Insert | Delete | Modify

type_synonym Changes = "(Action \<times> string) list"

subsection \<open>The environment and the trace\<close>

text \<open>What \<^verbatim>\<open>cmd.Run()\<close> leaves behind: the two captured streams and the error.\<close>

record RunResult =
  Stdout :: string
  Stderr :: string
  RunErr :: "error option"

text \<open>
  Everything outside the package, for one invocation: the \<^verbatim>\<open>git\<close> executable behind
  \<^verbatim>\<open>cmd.Run()\<close>, the working directory, go-git, and the three functions of the package
  \<^verbatim>\<open>models\<close> that \<^verbatim>\<open>Do\<close> calls, whose code is not in \<^verbatim>\<open>mod.go\<close>. \<open>'m\<close> is the type of a
  constructed backend (\<^verbatim>\<open>models.Model\<close>). \<^verbatim>\<open>NewOpenAi\<close> has a single result, a backend;
  \<^verbatim>\<open>NewOllamaAi\<close> and \<^verbatim>\<open>ExecPrompt\<close> return a value and an error, as in Go; a call after
  whose error the caller only returns is a sum.
\<close>

record 'm env =
  exec_Run :: "string list \<Rightarrow> RunResult"
  os_Getwd :: "error + string"
  git_PlainOpenWithOptions :: "string \<Rightarrow> bool \<Rightarrow> error + Repository"
  ReferenceName_Validate :: "string \<Rightarrow> error option"
  Tree_Diff :: "Tree \<Rightarrow> Tree \<Rightarrow> error + Changes"
  Changes_String :: "Changes \<Rightarrow> string"
  NewOpenAi :: "ModelConfig \<Rightarrow> 'm"
  NewOllamaAi :: "ModelConfig \<Rightarrow> 'm \<times> error option"
  ExecPrompt :: "'m \<Rightarrow> Context \<Rightarrow> string \<Rightarrow> string \<Rightarrow> Response \<times> error option"

text \<open>The calls that leave the process, in the order they are made.\<close>

datatype 'm event =
    CmdRun "string list"
  | Println string
  | Getwd
  | PlainOpen string
  | NewOpenAiCall ModelConfig
  | NewOllamaAiCall ModelConfig
  | ExecPromptCall 'm Context string string

text \<open>A Go result \<^verbatim>\<open>(string, error)\<close> together with the trace of the call.\<close>

type_synonym 'm outcome = "(string \<times> error option) \<times> 'm event list"

subsection \<open>The diff providers\<close>

text \<open>
  \<^verbatim>\<open>runDiffOnCli\<close> (lines 30-51). \<^verbatim>\<open>exec.Command\<close> only builds the command; the one built
  with both references is replaced when the destination is empty, and a single command
  is run. On an error the result is the empty string with the error, otherwise the
  captured standard output; the captured standard error is never read.
\<close>

definition runDiffOnCli :: "'m env \<Rightarrow> Config \<Rightarrow> 'm outcome" where
  "runDiffOnCli w config =
    (let cmd = [''git'', ''diff'', SourceRef config, DestinationRef config];
         cmd = (if DestinationRef config = [] then [''git'', ''diff'', SourceRef config]
                else cmd);
         r = exec_Run w cmd
     in case RunErr r of
          Some err \<Rightarrow> (([], Some err), [CmdRun cmd])
        | None \<Rightarrow> ((Stdout r, None), [CmdRun cmd]))"

text \<open>The \<^verbatim>\<open>if err != nil { return "", err }\<close> that follows each fallible call.\<close>

definition on_ok :: "error + 'a \<Rightarrow> ('a \<Rightarrow> error + 'b) \<Rightarrow> error + 'b" where
  "on_ok r f = (case r of Inl err \<Rightarrow> Inl err | Inr v \<Rightarrow> f v)"

text \<open>
  \<^verbatim>\<open>runDiffWithGoGit\<close>, lines 64-113: what is done with the opened repository. The source
  reference and a non-empty destination reference are validated and read with
  \<^verbatim>\<open>repo.Reference(name, true)\<close>; with an empty destination the reference is read with
  \<^verbatim>\<open>repo.Storer.Reference(plumbing.HEAD)\<close>. The diff is \<^verbatim>\<open>destTree.Diff(srcTree)\<close>.
\<close>

definition diffRefs :: "'m env \<Rightarrow> Repository \<Rightarrow> Config \<Rightarrow> error + string" where
  "diffRefs w repo config =
    (case ReferenceName_Validate w (SourceRef config) of
       Some err \<Rightarrow> Inl err
     | None \<Rightarrow>
    on_ok (Repository_Reference repo (SourceRef config) True) (\<lambda>srcRef.
    on_ok (CommitObject repo (Reference_Hash srcRef)) (\<lambda>srcCommit.
    on_ok (Commit_Tree repo srcCommit) (\<lambda>srcTree.
    on_ok (if DestinationRef config \<noteq> [] then
             (case ReferenceName_Validate w (DestinationRef config) of
                Some err \<Rightarrow> Inl err
              | None \<Rightarrow> Repository_Reference repo (DestinationRef config) True)
           else Storer_Reference repo HEAD) (\<lambda>destRef.
    on_ok (CommitObject repo (Reference_Hash destRef)) (\<lambda>destCommit.
    on_ok (Commit_Tree repo destCommit) (\<lambda>destTree.
    on_ok (Tree_Diff w destTree srcTree) (\<lambda>patch.
    Inr (Changes_String w patch)))))))))"

text \<open>
  \<^verbatim>\<open>runDiffWithGoGit\<close> (lines 53-114): the working directory, the repository opened from
  it with \<^verbatim>\<open>DetectDotGit: true\<close>, then the above.
\<close>

definition runDiffWithGoGit :: "'m env \<Rightarrow> Config \<Rightarrow> 'm outcome" where
  "runDiffWithGoGit w config =
    (case os_Getwd w of
       Inl err \<Rightarrow> (([], Some err), [Getwd])
     | Inr workingDir \<Rightarrow>
        (case git_PlainOpenWithOptions w workingDir True of
           Inl err \<Rightarrow> (([], Some err), [Getwd, PlainOpen workingDir])
         | Inr repo \<Rightarrow>
            (case diffRefs w repo config of
               Inl err \<Rightarrow> (([], Some err), [Getwd, PlainOpen workingDir])
             | Inr patch \<Rightarrow> ((patch, None), [Getwd, PlainOpen workingDir]))))"

subsection \<open>The orchestrator\<close>

text \<open>The struct literal of lines 146-152.\<close>

definition modelConfig :: "Config \<Rightarrow> ModelConfig" where
  "modelConfig config =
    \<lparr> PlatformApiKey = cfgPlatformApiKey config,
      Platform = cfgPlatform config,
      Model = cfgModel config,
      PromptMaxTokens = cfgPromptMaxTokens config,
      PromptRequestTimeoutSeconds = cfgPromptRequestTimeoutSeconds config \<rparr>"

text \<open>
  \<^verbatim>\<open>Do\<close> (lines 132-176). The \<^verbatim>\<open>switch\<close> either returns early with an error (\<open>Inl\<close>) or
  leaves a backend in \<^verbatim>\<open>runtime\<close> (\<open>Inr\<close>); each alternative carries the events it added.
  The context handed to \<^verbatim>\<open>ExecPrompt\<close> is \<^verbatim>\<open>context.Background()\<close>.
\<close>

definition Do :: "'m env \<Rightarrow> PromptType \<Rightarrow> Config \<Rightarrow> 'm outcome" where
  "Do w promptType config =
    (case runDiffOnCli w config of
       ((userPrompt, Some err), t1) \<Rightarrow> (([], Some err), t1)
     | ((userPrompt, None), t1) \<Rightarrow>
        (let systemPrompt = getPrompt promptType;
             t2 = t1 @ [Println ''System Prompt:'', Println systemPrompt,
                        Println ''User Prompt:'', Println userPrompt];
             mc = modelConfig config;
             selected =
               (if Platform mc = ''openai'' then
                  Inr (NewOpenAi w mc, [NewOpenAiCall mc])
                else if Platform mc = ''ollama'' then
                  (case NewOllamaAi w mc of
                     (runtime, Some err) \<Rightarrow> Inl (err, [NewOllamaAiCall mc])
                   | (runtime, None) \<Rightarrow> Inr (runtime, [NewOllamaAiCall mc]))
                else Inl (Errorf_unknown_platform (Platform mc) ErrUnknownPlatform, []))
         in case selected of
              Inl (err, t3) \<Rightarrow> (([], Some err), t2 @ t3)
            | Inr (runtime, t3) \<Rightarrow>
               (case ExecPrompt w runtime Background systemPrompt userPrompt of
                  (response, Some err) \<Rightarrow>
                    (([], Some err),
                     t2 @ t3 @ [ExecPromptCall runtime Background systemPrompt userPrompt])
                | (response, None) \<Rightarrow>
                    ((Content response, None),
                     t2 @ t3 @ [ExecPromptCall runtime Background systemPrompt userPrompt,
                                Println ''Model Response:'']))))"

subsection \<open>Reading a trace\<close>

fun is_CmdRun :: "'m event \<Rightarrow> bool" where
  "is_CmdRun (CmdRun argv) = True"
| "is_CmdRun e = False"

fun is_gogit_event :: "'m event \<Rightarrow> bool" where
  "is_gogit_event Getwd = True"
| "is_gogit_event (PlainOpen dir) = True"
| "is_gogit_event e = False"

fun is_construction :: "'m event \<Rightarrow> bool" where
  "is_construction (NewOpenAiCall mc) = True"
| "is_construction (NewOllamaAiCall mc) = True"
| "is_construction e = False"

fun is_ExecPromptCall :: "'m event \<Rightarrow> bool" where
  "is_ExecPromptCall (ExecPromptCall runtime ctx systemPrompt userPrompt) = True"
| "is_ExecPromptCall e = False"

fun is_Println :: "'m event \<Rightarrow> bool" where
  "is_Println (Println line) = True"
| "is_Println e = False"

text \<open>The contexts of the \<^verbatim>\<open>ExecPrompt\<close> calls of a trace, in order.\<close>

fun event_context :: "'m event \<Rightarrow> Context option" where
  "event_context (ExecPromptCall runtime ctx systemPrompt userPrompt) = Some ctx"
| "event_context e = None"

definition exec_contexts :: "'m event list \<Rightarrow> Context list" where
  "exec_contexts t = List.map_filter event_context t"

text \<open>
  The two ways the \<^verbatim>\<open>switch\<close> of \<^verbatim>\<open>Do\<close> leaves a backend in \<^verbatim>\<open>runtime\<close>, with the event
  the constructor call adds to the trace.
\<close>

definition constructed :: "'m env \<Rightarrow> Config \<Rightarrow> 'm \<Rightarrow> 'm event \<Rightarrow> bool" where
  "constructed w c runtime ev \<longleftrightarrow>
     cfgPlatform c = ''openai'' \<and> runtime = NewOpenAi w (modelConfig c) \<and>
       ev = NewOpenAiCall (modelConfig c) \<or>
     cfgPlatform c = ''ollama'' \<and> NewOllamaAi w (modelConfig c) = (runtime, None) \<and>
       ev = NewOllamaAiCall (modelConfig c)"

subsection \<open>What \<^verbatim>\<open>git diff\<close> compares\<close>

text \<open>
  The \<^verbatim>\<open>git\<close> executable is not part of the repository. How it reads the command
  \<^verbatim>\<open>git diff <arg>\<close>, the one \<open>runDiffOnCli\<close> runs for an empty destination, is written
  down here after its manual page, git-diff(1); a comparison is a pair, the side the
  changes start from and the side they lead to.
  \<^item> An argument that begins with a dash is read as an option, never as a revision:
    nothing stands between \<^verbatim>\<open>diff\<close> and the argument, and no \<^verbatim>\<open>--\<close> follows it.
    \<^verbatim>\<open>--cached\<close>, and its synonym \<^verbatim>\<open>--staged\<close>, with no commit named compares the head
    commit with the index; the working tree takes no part. No other option is
    covered here.
  \<^item> An argument the tool resolves to a single commit: that commit is compared with
    the working tree.
  \<^item> An argument the tool takes for a path: the index is compared with the working
    tree, for that path.
  \<^item> Anything else (a revision range such as \<^verbatim>\<open>main..\<close>, or a string the tool rejects)
    is not covered here.
  Which strings name a commit or a path depends on the repository the tool runs in;
  it is a parameter, \<open>reads\<close>.
\<close>

datatype side = WorkingTree | Index | Commit string

datatype reading = Revision | Pathspec | Unread

definition git_diff_single :: "(string \<Rightarrow> reading) \<Rightarrow> string \<Rightarrow> (side \<times> side) option" where
  "git_diff_single reads a =
     (if a = ''--cached'' \<or> a = ''--staged'' then Some (Commit ''HEAD'', Index)
      else if take 1 a = ''-'' then None
      else (case reads a of
              Revision \<Rightarrow> Some (Commit a, WorkingTree)
            | Pathspec \<Rightarrow> Some (Index, WorkingTree)
            | Unread \<Rightarrow> None))"

text \<open>The same for a whole command; only \<^verbatim>\<open>git diff\<close> with one argument is covered.\<close>

fun git_diff_sides :: "(string \<Rightarrow> reading) \<Rightarrow> string list \<Rightarrow> (side \<times> side) option" where
  "git_diff_sides reads [tool, subcommand, a] =
     (if tool = ''git'' \<and> subcommand = ''diff'' then git_diff_single reads a else None)"
| "git_diff_sides reads argv = None"

subsection \<open>Example environments\<close>

text \<open>
  A repository checked out on a branch: \<^verbatim>\<open>HEAD\<close> is a symbolic reference to
  \<^verbatim>\<open>refs/heads/main\<close>, which is at commit 1; \<^verbatim>\<open>refs/heads/feature\<close> is at commit 2. The two
  commits have different trees.
\<close>

definition repo_on_branch :: Repository where
  "repo_on_branch =
    \<lparr> Storer_Reference = (\<lambda>n.
        if n = ''HEAD'' then Inr (SymbolicReference ''HEAD'' ''refs/heads/main'')
        else if n = ''refs/heads/main'' then Inr (HashReference ''refs/heads/main'' 1)
        else if n = ''refs/heads/feature'' then Inr (HashReference ''refs/heads/feature'' 2)
        else Inl ErrReferenceNotFound),
      CommitObject = (\<lambda>h.
        if h = 1 then Inr \<lparr> TreeHash = 11 \<rparr>
        else if h = 2 then Inr \<lparr> TreeHash = 12 \<rparr>
        else Inl ErrObjectNotFound),
      TreeObject = (\<lambda>h.
        if h = 11 then Inr [(''a.txt'', 21)]
        else if h = 12 then Inr [(''a.txt'', 22)]
        else Inl ErrObjectNotFound) \<rparr>"

text \<open>
  An environment in which every call succeeds: \<^verbatim>\<open>git diff\<close> prints one text for one
  reference and another for two, and both backends answer.
\<close>

definition env_ok :: "string env" where
  "env_ok =
    \<lparr> exec_Run = (\<lambda>argv.
        \<lparr> Stdout = (if length argv = 3 then ''diff against the working tree''
                     else ''diff between two commits''),
          Stderr = [], RunErr = None \<rparr>),
      os_Getwd = Inr ''/repo'',
      git_PlainOpenWithOptions = (\<lambda>dir detect. Inr repo_on_branch),
      ReferenceName_Validate = (\<lambda>n. None),
      Tree_Diff = (\<lambda>from to. Inr (if from = to then [] else [(Modify, ''a.txt'')])),
      Changes_String = (\<lambda>cs. if cs = [] then ''[]'' else ''[<Action: Modify, Path: a.txt>]''),
      NewOpenAi = (\<lambda>mc. ''openai '' @ Model mc),
      NewOllamaAi = (\<lambda>mc. (''ollama '' @ Model mc, None)),
      ExecPrompt = (\<lambda>runtime ctx systemPrompt userPrompt.
        (\<lparr> Content = ''update a.txt'' \<rparr>, None)) \<rparr>"

text \<open>The same with a failing \<^verbatim>\<open>git\<close>, an unreachable local server, a failing model call.\<close>

definition env_git_fails :: "string env" where
  "env_git_fails =
    env_ok \<lparr> exec_Run := (\<lambda>argv.
      \<lparr> Stdout = [], Stderr = ''fatal: not a git repository'',
        RunErr = Some (Foreign ''exit status 128'') \<rparr>) \<rparr>"

definition env_ollama_down :: "string env" where
  "env_ollama_down =
    env_ok \<lparr> NewOllamaAi := (\<lambda>mc. ([], Some (Foreign ''connection refused''))) \<rparr>"

definition env_model_fails :: "string env" where
  "env_model_fails =
    env_ok \<lparr> ExecPrompt := (\<lambda>runtime ctx systemPrompt userPrompt.
      (\<lparr> Content = [] \<rparr>, Some (Foreign ''status code: 401''))) \<rparr>"

definition cfg_openai :: Config where
  "cfg_openai =
    \<lparr> SourceRef = ''feature-branch'', DestinationRef = [],
      cfgPlatformApiKey = ''key'', cfgPlatform = ''openai'', cfgModel = ''gpt-4o'',
      cfgPromptMaxTokens = 1000, cfgPromptRequestTimeoutSeconds = 60 \<rparr>"

definition cfg_ollama :: Config where
  "cfg_ollama = cfg_openai \<lparr> cfgPlatform := ''ollama'', cfgModel := ''llama3'' \<rparr>"

definition cfg_bogus :: Config where
  "cfg_bogus = cfg_openai \<lparr> cfgPlatform := ''bogus'' \<rparr>"

definition cfg_two_refs :: Config where
  "cfg_two_refs = cfg_openai \<lparr> SourceRef := ''main'', DestinationRef := ''feature-branch'' \<rparr>"

text \<open>
  A configuration whose source string is an option of \<^verbatim>\<open>git diff\<close>, and a repository
  in which the tool knows two branches, the head and one file.
\<close>

definition cfg_cached :: Config where
  "cfg_cached = cfg_openai \<lparr> SourceRef := ''--cached'' \<rparr>"

definition reads_example :: "string \<Rightarrow> reading" where
  "reads_example a =
     (if a = ''main'' \<or> a = ''feature-branch'' \<or> a = ''HEAD'' then Revision
      else if a = ''a.txt'' then Pathspec
      else Unread)"

section \<open>Properties\<close>

subsection \<open>The ways through the orchestrator\<close>

lemma runDiffOnCli_trace:
  "snd (runDiffOnCli w c) =
     [CmdRun (if DestinationRef c = [] then [''git'', ''diff'', SourceRef c]
              else [''git'', ''diff'', SourceRef c, DestinationRef c])]"
  by (simp add: runDiffOnCli_def Let_def split: option.splits)

lemma runDiffOnCli_failed_empty:
  "runDiffOnCli w c = ((s, Some err), t1) \<Longrightarrow> s = []"
  by (auto simp: runDiffOnCli_def Let_def split: option.splits)

lemma runDiffOnCli_env_ok_openai:
  "runDiffOnCli env_ok cfg_openai =
     ((''diff against the working tree'', None), [CmdRun [''git'', ''diff'', ''feature-branch'']])"
  by (simp add: runDiffOnCli_def Let_def cfg_openai_def env_ok_def)

lemma Platform_modelConfig: "Platform (modelConfig c) = cfgPlatform c"
  by (simp add: modelConfig_def)

lemma constructedI_openai:
  "cfgPlatform c = ''openai'' \<Longrightarrow>
   constructed w c (NewOpenAi w (modelConfig c)) (NewOpenAiCall (modelConfig c))"
  by (simp add: constructed_def)

lemma constructedI_ollama:
  "cfgPlatform c = ''ollama'' \<Longrightarrow> NewOllamaAi w (modelConfig c) = (runtime, None) \<Longrightarrow>
   constructed w c runtime (NewOllamaAiCall (modelConfig c))"
  by (simp add: constructed_def)

lemma constructed_event [simp]:
  "constructed w c runtime ev \<Longrightarrow>
   is_construction ev \<and> \<not> is_CmdRun ev \<and> \<not> is_ExecPromptCall ev \<and>
   \<not> is_Println ev \<and> \<not> is_gogit_event ev \<and> event_context ev = None"
  by (auto simp: constructed_def)

text \<open>The ways through \<open>Do\<close>, each with its result and its whole trace.\<close>

lemma Do_diff_failed:
  "runDiffOnCli w c = ((s, Some err), t1) \<Longrightarrow> Do w pt c = (([], Some err), t1)"
  by (simp add: Do_def)

lemma Do_platform_default:
  "runDiffOnCli w c = ((userPrompt, None), t1) \<Longrightarrow>
   cfgPlatform c \<noteq> ''openai'' \<Longrightarrow> cfgPlatform c \<noteq> ''ollama'' \<Longrightarrow>
   Do w pt c =
     (([], Some (Errorf_unknown_platform (cfgPlatform c) ErrUnknownPlatform)),
      t1 @ [Println ''System Prompt:'', Println (getPrompt pt),
            Println ''User Prompt:'', Println userPrompt])"
  by (simp add: Do_def Let_def Platform_modelConfig)

lemma Do_ollama_failed:
  "runDiffOnCli w c = ((userPrompt, None), t1) \<Longrightarrow>
   cfgPlatform c = ''ollama'' \<Longrightarrow>
   NewOllamaAi w (modelConfig c) = (runtime, Some err) \<Longrightarrow>
   Do w pt c =
     (([], Some err),
      t1 @ [Println ''System Prompt:'', Println (getPrompt pt),
            Println ''User Prompt:'', Println userPrompt,
            NewOllamaAiCall (modelConfig c)])"
  by (simp add: Do_def Let_def Platform_modelConfig)

lemma Do_exec_failed:
  "runDiffOnCli w c = ((userPrompt, None), t1) \<Longrightarrow>
   constructed w c runtime ev \<Longrightarrow>
   ExecPrompt w runtime Background (getPrompt pt) userPrompt = (response, Some err) \<Longrightarrow>
   Do w pt c =
     (([], Some err),
      t1 @ [Println ''System Prompt:'', Println (getPrompt pt),
            Println ''User Prompt:'', Println userPrompt, ev,
            ExecPromptCall runtime Background (getPrompt pt) userPrompt])"
  by (auto simp: Do_def Let_def Platform_modelConfig constructed_def)

lemma Do_exec_ok:
  "runDiffOnCli w c = ((userPrompt, None), t1) \<Longrightarrow>
   constructed w c runtime ev \<Longrightarrow>
   ExecPrompt w runtime Background (getPrompt pt) userPrompt = (response, None) \<Longrightarrow>
   Do w pt c =
     ((Content response, None),
      t1 @ [Println ''System Prompt:'', Println (getPrompt pt),
            Println ''User Prompt:'', Println userPrompt, ev,
            ExecPromptCall runtime Background (getPrompt pt) userPrompt,
            Println ''Model Response:''])"
  by (auto simp: Do_def Let_def Platform_modelConfig constructed_def)

text \<open>Every call of \<open>Do\<close> takes one of the four ways.\<close>

lemma Do_cases:
  obtains
    (diff_failed) err argv where
      "runDiffOnCli w c = (([], Some err), [CmdRun argv])"
      "fst (Do w pt c) = ([], Some err)"
      "snd (Do w pt c) = [CmdRun argv]"
  | (not_constructed) err argv userPrompt evs where
      "runDiffOnCli w c = ((userPrompt, None), [CmdRun argv])"
      "evs = [] \<or> evs = [NewOllamaAiCall (modelConfig c)]"
      "fst (Do w pt c) = ([], Some err)"
      "snd (Do w pt c) =
         [CmdRun argv, Println ''System Prompt:'', Println (getPrompt pt),
          Println ''User Prompt:'', Println userPrompt] @ evs"
  | (exec_failed) err argv userPrompt runtime ev response where
      "runDiffOnCli w c = ((userPrompt, None), [CmdRun argv])"
      "constructed w c runtime ev"
      "ExecPrompt w runtime Background (getPrompt pt) userPrompt = (response, Some err)"
      "fst (Do w pt c) = ([], Some err)"
      "snd (Do w pt c) =
         [CmdRun argv, Println ''System Prompt:'', Println (getPrompt pt),
          Println ''User Prompt:'', Println userPrompt, ev,
          ExecPromptCall runtime Background (getPrompt pt) userPrompt]"
  | (ok) response argv userPrompt runtime ev where
      "runDiffOnCli w c = ((userPrompt, None), [CmdRun argv])"
      "constructed w c runtime ev"
      "ExecPrompt w runtime Background (getPrompt pt) userPrompt = (response, None)"
      "fst (Do w pt c) = (Content response, None)"
      "snd (Do w pt c) =
         [CmdRun argv, Println ''System Prompt:'', Println (getPrompt pt),
          Println ''User Prompt:'', Println userPrompt, ev,
          ExecPromptCall runtime Background (getPrompt pt) userPrompt,
          Println ''Model Response:'']"
proof -
  obtain s e t1 where r: "runDiffOnCli w c = ((s, e), t1)"
    by (metis prod.exhaust)
  obtain argv where t1: "t1 = [CmdRun argv]"
    using runDiffOnCli_trace [of w c] r by simp
  show thesis
  proof (cases e)
    case (Some err)
    with r t1 runDiffOnCli_failed_empty [of w c s err t1] Do_diff_failed [of w c s err t1 pt]
    show thesis by (intro diff_failed [of err argv]) simp_all
  next
    case None
    note ok_diff = r [unfolded None t1]
    consider (openai) "cfgPlatform c = ''openai''"
      | (ollama) "cfgPlatform c = ''ollama''"
      | (other) "cfgPlatform c \<noteq> ''openai''" "cfgPlatform c \<noteq> ''ollama''"
      by blast
    then show thesis
    proof cases
      case other
      from Do_platform_default [OF ok_diff other, of pt]
      show thesis by (intro not_constructed [OF ok_diff, of "[]"]) simp_all
    next
      case openai
      note con = constructedI_openai [OF openai, of w]
      obtain response e' where
        ex: "ExecPrompt w (NewOpenAi w (modelConfig c)) Background (getPrompt pt) s = (response, e')"
        by (metis prod.exhaust)
      show thesis
      proof (cases e')
        case None
        from Do_exec_ok [OF ok_diff con ex [unfolded None]]
        show thesis by (intro ok [OF ok_diff con ex [unfolded None]]) simp_all
      next
        case (Some err)
        from Do_exec_failed [OF ok_diff con ex [unfolded Some]]
        show thesis by (intro exec_failed [OF ok_diff con ex [unfolded Some]]) simp_all
      qed
    next
      case ollama
      obtain runtime e0 where new: "NewOllamaAi w (modelConfig c) = (runtime, e0)"
        by (metis prod.exhaust)
      show thesis
      proof (cases e0)
        case (Some err)
        from Do_ollama_failed [OF ok_diff ollama new [unfolded Some], of pt]
        show thesis
          by (intro not_constructed [OF ok_diff, of "[NewOllamaAiCall (modelConfig c)]"]) simp_all
      next
        case None
        note con = constructedI_ollama [OF ollama new [unfolded None]]
        obtain response e' where
          ex: "ExecPrompt w runtime Background (getPrompt pt) s = (response, e')"
          by (metis prod.exhaust)
        show thesis
        proof (cases e')
          case None
          from Do_exec_ok [OF ok_diff con ex [unfolded None]]
          show thesis by (intro ok [OF ok_diff con ex [unfolded None]]) simp_all
        next
          case (Some err)
          from Do_exec_failed [OF ok_diff con ex [unfolded Some]]
          show thesis by (intro exec_failed [OF ok_diff con ex [unfolded Some]]) simp_all
        qed
      qed
    qed
  qed
qed

lemma Do_trace_counts:
  "length (filter is_CmdRun (snd (Do w pt c))) = 1 \<and>
   length (filter is_construction (snd (Do w pt c))) \<le> 1 \<and>
   length (filter is_ExecPromptCall (snd (Do w pt c))) \<le> 1"
  by (cases rule: Do_cases [where w = w and pt = pt and c = c]) auto

lemma Do_failed_empty:
  "snd (fst (Do w pt c)) \<noteq> None \<Longrightarrow> fst (fst (Do w pt c)) = []"
  by (cases rule: Do_cases [where w = w and pt = pt and c = c]) auto

lemma runDiffOnCli_env_git_fails:
  "runDiffOnCli env_git_fails cfg_bogus =
     (([], Some (Foreign ''exit status 128'')), [CmdRun [''git'', ''diff'', ''feature-branch'']])"
  by (simp add: runDiffOnCli_def Let_def cfg_bogus_def cfg_openai_def env_git_fails_def env_ok_def)

lemma runDiffOnCli_env_ok_bogus:
  "runDiffOnCli env_ok cfg_bogus =
     ((''diff against the working tree'', None), [CmdRun [''git'', ''diff'', ''feature-branch'']])"
  by (simp add: runDiffOnCli_def Let_def cfg_bogus_def cfg_openai_def env_ok_def)

lemma runDiffOnCli_env_ollama_down:
  "runDiffOnCli env_ollama_down cfg_ollama =
     ((''diff against the working tree'', None), [CmdRun [''git'', ''diff'', ''feature-branch'']])"
  by (simp add: runDiffOnCli_def Let_def cfg_ollama_def cfg_openai_def env_ollama_down_def env_ok_def)

lemma runDiffOnCli_env_model_fails:
  "runDiffOnCli env_model_fails cfg_openai =
     ((''diff against the working tree'', None), [CmdRun [''git'', ''diff'', ''feature-branch'']])"
  by (simp add: runDiffOnCli_def Let_def cfg_openai_def env_model_fails_def env_ok_def)

lemma errors_Is_unknown_platform:
  "errors_Is (Errorf_unknown_platform p ErrUnknownPlatform) ErrUnknownPlatform"
  by (simp add: Errorf_unknown_platform_def)

lemma exec_contexts_simps [simp]:
  "exec_contexts [] = []"
  "exec_contexts (e # t) =
     (case event_context e of None \<Rightarrow> exec_contexts t | Some x \<Rightarrow> x # exec_contexts t)"
  by (simp_all add: exec_contexts_def map_filter_simps split: option.splits)

text \<open>\<open>Do\<close> reads four fields of the environment and no other.\<close>

lemma Do_env_cong:
  assumes a: "exec_Run w' = exec_Run w" and b: "NewOpenAi w' = NewOpenAi w"
    and c: "NewOllamaAi w' = NewOllamaAi w" and d: "ExecPrompt w' = ExecPrompt w"
  shows "Do w' pt cfg = Do w pt cfg"
  unfolding Do_def runDiffOnCli_def a b c d by (rule refl)

lemma runDiffWithGoGit_leaves_Getwd:
  "take 1 (snd (runDiffWithGoGit w c)) = [Getwd]"
  by (simp add: runDiffWithGoGit_def split: sum.splits)

text \<open>The commands \<open>Do\<close> runs are those of \<open>runDiffOnCli\<close>; it leaves no go-git event.\<close>

lemma Do_commands:
  "filter is_gogit_event (snd (Do w pt c)) = [] \<and>
   filter is_CmdRun (snd (Do w pt c)) = snd (runDiffOnCli w c)"
  by (cases rule: Do_cases [where w = w and pt = pt and c = c]) auto

subsection \<open>The instruction selector\<close>

text \<open>
  C7. For each of the three task types commit-message, code-review and test-case,
  \<open>getPrompt\<close> returns a non-empty instruction string, and the three strings are
  pairwise distinct. \<open>getPrompt\<close> is a function from the task type to a string alone:
  it reads no environment, writes no trace and has no error result.
\<close>

theorem getPrompt_nonempty_distinct:
  "getPrompt PromptCommitMessage \<noteq> [] \<and>
   getPrompt PromptCodeReview \<noteq> [] \<and>
   getPrompt PromptTestCase \<noteq> [] \<and>
   getPrompt PromptCommitMessage \<noteq> getPrompt PromptCodeReview \<and>
   getPrompt PromptCommitMessage \<noteq> getPrompt PromptTestCase \<and>
   getPrompt PromptCodeReview \<noteq> getPrompt PromptTestCase"
  by (simp add: getPrompt_def PromptCommitMessage_def PromptCodeReview_def PromptTestCase_def)

text \<open>
  C2 as stated fails: the value 3 is outside the enumeration, \<open>getPrompt\<close> returns the
  empty string for it, and \<open>Do\<close> called with it goes on to the backend and returns
  its content with no error.
\<close>

theorem getPrompt_outside_enumeration_counterexample:
  "(3::int) \<notin> {PromptCommitMessage, PromptCodeReview, PromptTestCase} \<and>
   getPrompt 3 = [] \<and>
   fst (Do env_ok 3 cfg_openai) = (''update a.txt'', None)"
proof -
  have g: "getPrompt 3 = []"
    by (simp add: getPrompt_def PromptCommitMessage_def PromptCodeReview_def PromptTestCase_def)
  have "cfgPlatform cfg_openai = ''openai''"
    by (simp add: cfg_openai_def)
  from Do_exec_ok [OF runDiffOnCli_env_ok_openai constructedI_openai [OF this],
      of 3 "\<lparr> Content = ''update a.txt'' \<rparr>"]
  have "fst (Do env_ok 3 cfg_openai) = (''update a.txt'', None)"
    by (simp add: env_ok_def)
  with g show ?thesis
    by (simp add: PromptCommitMessage_def PromptCodeReview_def PromptTestCase_def)
qed

text \<open>
  C2, amended. For every task-type value outside the enumeration commit-message,
  code-review, test-case, \<open>getPrompt\<close> returns the empty instruction string; it has no
  error result.
\<close>

theorem getPrompt_outside_enumeration:
  "pt \<notin> {PromptCommitMessage, PromptCodeReview, PromptTestCase} \<Longrightarrow> getPrompt pt = []"
  by (simp add: getPrompt_def)

theorem getPrompt_outside_enumeration_witness:
  "(-1::int) \<notin> {PromptCommitMessage, PromptCodeReview, PromptTestCase} \<and> getPrompt (-1) = []"
  using getPrompt_outside_enumeration [of "-1"]
  by (simp add: PromptCommitMessage_def PromptCodeReview_def PromptTestCase_def)

subsection \<open>The external-tool diff provider\<close>

text \<open>
  C9. \<open>runDiffOnCli\<close> runs one command: \<^verbatim>\<open>git diff\<close> with the source and the destination
  reference when the destination is not empty, \<^verbatim>\<open>git diff\<close> with the source reference
  alone when it is; when the command succeeds the result is its captured standard
  output, with no error.
\<close>

theorem runDiffOnCli_command_and_output:
  "(DestinationRef c \<noteq> [] \<longrightarrow>
      snd (runDiffOnCli w c) = [CmdRun [''git'', ''diff'', SourceRef c, DestinationRef c]] \<and>
      (RunErr (exec_Run w [''git'', ''diff'', SourceRef c, DestinationRef c]) = None \<longrightarrow>
         fst (runDiffOnCli w c) =
           (Stdout (exec_Run w [''git'', ''diff'', SourceRef c, DestinationRef c]), None))) \<and>
   (DestinationRef c = [] \<longrightarrow>
      snd (runDiffOnCli w c) = [CmdRun [''git'', ''diff'', SourceRef c]] \<and>
      (RunErr (exec_Run w [''git'', ''diff'', SourceRef c]) = None \<longrightarrow>
         fst (runDiffOnCli w c) = (Stdout (exec_Run w [''git'', ''diff'', SourceRef c]), None)))"
  by (auto simp: runDiffOnCli_def Let_def split: option.splits)

theorem runDiffOnCli_command_and_output_witness:
  "runDiffOnCli env_ok cfg_two_refs =
     ((''diff between two commits'', None),
      [CmdRun [''git'', ''diff'', ''main'', ''feature-branch'']]) \<and>
   runDiffOnCli env_ok cfg_openai =
     ((''diff against the working tree'', None), [CmdRun [''git'', ''diff'', ''feature-branch'']])"
  using runDiffOnCli_command_and_output [of cfg_two_refs env_ok]
    runDiffOnCli_command_and_output [of cfg_openai env_ok]
  by (simp add: cfg_two_refs_def cfg_openai_def env_ok_def prod_eq_iff)

subsection \<open>The orchestrator\<close>

text \<open>
  C8. When the diff succeeds, the backend is constructed (the hosted one, or the local
  one with no error) and the backend call returns a response with no error, \<open>Do\<close>
  returns exactly the content of that response, with no error.
\<close>

theorem Do_returns_content_unchanged:
  assumes "runDiffOnCli w c = ((userPrompt, None), t1)"
    and "cfgPlatform c = ''openai'' \<and> runtime = NewOpenAi w (modelConfig c) \<or>
         cfgPlatform c = ''ollama'' \<and> NewOllamaAi w (modelConfig c) = (runtime, None)"
    and "ExecPrompt w runtime Background (getPrompt pt) userPrompt = (response, None)"
  shows "fst (Do w pt c) = (Content response, None)"
proof -
  from assms(2) obtain ev where "constructed w c runtime ev"
    by (auto simp: constructed_def)
  from Do_exec_ok [OF assms(1) this assms(3)] show ?thesis by simp
qed

theorem Do_returns_content_unchanged_witness:
  "fst (Do env_ok PromptCommitMessage cfg_openai) = (''update a.txt'', None)"
  using Do_returns_content_unchanged [of env_ok cfg_openai "''diff against the working tree''"
      "[CmdRun [''git'', ''diff'', ''feature-branch'']]" "''openai gpt-4o''" PromptCommitMessage
      "\<lparr> Content = ''update a.txt'' \<rparr>"]
  by (simp add: runDiffOnCli_env_ok_openai) (simp add: cfg_openai_def env_ok_def modelConfig_def)

text \<open>
  C5. Whatever step of \<open>Do\<close> fails, \<open>Do\<close> returns the empty string with that step's
  error, and its trace ends with the failed step:
  \<^item> when the diff fails, the result is the diff's error and the trace is that of
    \<open>runDiffOnCli\<close>, a single command: nothing printed, no backend constructed, no
    backend call;
  \<^item> when the platform is unknown, the result is the wrapped \<open>ErrUnknownPlatform\<close>
    after the four printed lines, with no backend constructed and no backend call;
  \<^item> when the local backend cannot be constructed, the result is the constructor's
    error, after that one constructor call and with no backend call;
  \<^item> when the backend call fails, the result is its error, and that call is the last
    event of the trace.
  In every case the content returned with an error is empty, one command is run, and
  at most one backend is constructed and at most one backend call made: nothing is
  tried twice.
\<close>

theorem Do_error_propagation:
  "(runDiffOnCli w c = ((s, Some err), t1) \<longrightarrow>
      Do w pt c = (([], Some err), t1)) \<and>
   (runDiffOnCli w c = ((userPrompt, None), t1) \<and>
    cfgPlatform c \<noteq> ''openai'' \<and> cfgPlatform c \<noteq> ''ollama'' \<longrightarrow>
      Do w pt c =
        (([], Some (Errorf_unknown_platform (cfgPlatform c) ErrUnknownPlatform)),
         t1 @ [Println ''System Prompt:'', Println (getPrompt pt),
               Println ''User Prompt:'', Println userPrompt])) \<and>
   (runDiffOnCli w c = ((userPrompt, None), t1) \<and> cfgPlatform c = ''ollama'' \<and>
    NewOllamaAi w (modelConfig c) = (runtime, Some err) \<longrightarrow>
      Do w pt c =
        (([], Some err),
         t1 @ [Println ''System Prompt:'', Println (getPrompt pt),
               Println ''User Prompt:'', Println userPrompt,
               NewOllamaAiCall (modelConfig c)])) \<and>
   (runDiffOnCli w c = ((userPrompt, None), t1) \<and> constructed w c runtime ev \<and>
    ExecPrompt w runtime Background (getPrompt pt) userPrompt = (response, Some err) \<longrightarrow>
      Do w pt c =
        (([], Some err),
         t1 @ [Println ''System Prompt:'', Println (getPrompt pt),
               Println ''User Prompt:'', Println userPrompt, ev,
               ExecPromptCall runtime Background (getPrompt pt) userPrompt])) \<and>
   (\<exists>argv. snd (runDiffOnCli w c) = [CmdRun argv]) \<and>
   (snd (fst (Do w pt c)) \<noteq> None \<longrightarrow> fst (fst (Do w pt c)) = []) \<and>
   length (filter is_CmdRun (snd (Do w pt c))) = 1 \<and>
   length (filter is_construction (snd (Do w pt c))) \<le> 1 \<and>
   length (filter is_ExecPromptCall (snd (Do w pt c))) \<le> 1"
proof (intro conjI impI)
  assume "runDiffOnCli w c = ((s, Some err), t1)"
  then show "Do w pt c = (([], Some err), t1)"
    by (rule Do_diff_failed)
next
  assume "runDiffOnCli w c = ((userPrompt, None), t1) \<and>
    cfgPlatform c \<noteq> ''openai'' \<and> cfgPlatform c \<noteq> ''ollama''"
  then show "Do w pt c =
     (([], Some (Errorf_unknown_platform (cfgPlatform c) ErrUnknownPlatform)),
      t1 @ [Println ''System Prompt:'', Println (getPrompt pt),
            Println ''User Prompt:'', Println userPrompt])"
    by (intro Do_platform_default) simp_all
next
  assume "runDiffOnCli w c = ((userPrompt, None), t1) \<and> cfgPlatform c = ''ollama'' \<and>
    NewOllamaAi w (modelConfig c) = (runtime, Some err)"
  then show "Do w pt c =
     (([], Some err),
      t1 @ [Println ''System Prompt:'', Println (getPrompt pt),
            Println ''User Prompt:'', Println userPrompt,
            NewOllamaAiCall (modelConfig c)])"
    by (intro Do_ollama_failed) simp_all
next
  assume "runDiffOnCli w c = ((userPrompt, None), t1) \<and> constructed w c runtime ev \<and>
    ExecPrompt w runtime Background (getPrompt pt) userPrompt = (response, Some err)"
  then show "Do w pt c =
     (([], Some err),
      t1 @ [Println ''System Prompt:'', Println (getPrompt pt),
            Println ''User Prompt:'', Println userPrompt, ev,
            ExecPromptCall runtime Background (getPrompt pt) userPrompt])"
    by (intro Do_exec_failed) simp_all
next
  show "\<exists>argv. snd (runDiffOnCli w c) = [CmdRun argv]"
    using runDiffOnCli_trace [of w c] by blast
next
  assume "snd (fst (Do w pt c)) \<noteq> None"
  then show "fst (fst (Do w pt c)) = []"
    by (rule Do_failed_empty)
next
  show "length (filter is_CmdRun (snd (Do w pt c))) = 1"
    "length (filter is_construction (snd (Do w pt c))) \<le> 1"
    "length (filter is_ExecPromptCall (snd (Do w pt c))) \<le> 1"
    using Do_trace_counts [of w pt c] by simp_all
qed

theorem Do_error_propagation_witness:
  "Do env_git_fails PromptCommitMessage cfg_bogus =
     (([], Some (Foreign ''exit status 128'')), [CmdRun [''git'', ''diff'', ''feature-branch'']]) \<and>
   Do env_ok PromptCommitMessage cfg_bogus =
     (([], Some (Wrapped ''unknown platform bogus - unknown platform'' ErrUnknownPlatform)),
      [CmdRun [''git'', ''diff'', ''feature-branch''],
       Println ''System Prompt:'', Println (getPrompt PromptCommitMessage),
       Println ''User Prompt:'', Println ''diff against the working tree'']) \<and>
   Do env_ollama_down PromptCodeReview cfg_ollama =
     (([], Some (Foreign ''connection refused'')),
      [CmdRun [''git'', ''diff'', ''feature-branch''],
       Println ''System Prompt:'', Println (getPrompt PromptCodeReview),
       Println ''User Prompt:'', Println ''diff against the working tree'',
       NewOllamaAiCall (modelConfig cfg_ollama)]) \<and>
   Do env_model_fails PromptTestCase cfg_openai =
     (([], Some (Foreign ''status code: 401'')),
      [CmdRun [''git'', ''diff'', ''feature-branch''],
       Println ''System Prompt:'', Println (getPrompt PromptTestCase),
       Println ''User Prompt:'', Println ''diff against the working tree'',
       NewOpenAiCall (modelConfig cfg_openai),
       ExecPromptCall ''openai gpt-4o'' Background (getPrompt PromptTestCase)
         ''diff against the working tree''])"
proof -
  have a: "Do env_git_fails PromptCommitMessage cfg_bogus =
     (([], Some (Foreign ''exit status 128'')), [CmdRun [''git'', ''diff'', ''feature-branch'']])"
    using Do_error_propagation [where w = env_git_fails and c = cfg_bogus and s = "[]"
        and err = "Foreign ''exit status 128''"
        and ?t1.0 = "[CmdRun [''git'', ''diff'', ''feature-branch'']]"
        and pt = PromptCommitMessage]
    by (simp add: runDiffOnCli_env_git_fails)
  have u: "Do env_ok PromptCommitMessage cfg_bogus =
     (([], Some (Wrapped ''unknown platform bogus - unknown platform'' ErrUnknownPlatform)),
      [CmdRun [''git'', ''diff'', ''feature-branch''],
       Println ''System Prompt:'', Println (getPrompt PromptCommitMessage),
       Println ''User Prompt:'', Println ''diff against the working tree''])"
    using Do_error_propagation [where w = env_ok and c = cfg_bogus
        and userPrompt = "''diff against the working tree''"
        and ?t1.0 = "[CmdRun [''git'', ''diff'', ''feature-branch'']]"
        and pt = PromptCommitMessage]
    by (simp add: runDiffOnCli_env_ok_bogus)
      (simp add: cfg_bogus_def Errorf_unknown_platform_def)
  have b: "Do env_ollama_down PromptCodeReview cfg_ollama =
     (([], Some (Foreign ''connection refused'')),
      [CmdRun [''git'', ''diff'', ''feature-branch''],
       Println ''System Prompt:'', Println (getPrompt PromptCodeReview),
       Println ''User Prompt:'', Println ''diff against the working tree'',
       NewOllamaAiCall (modelConfig cfg_ollama)])"
    using Do_error_propagation [where w = env_ollama_down and c = cfg_ollama
        and userPrompt = "''diff against the working tree''"
        and err = "Foreign ''connection refused''" and runtime = "[]"
        and ?t1.0 = "[CmdRun [''git'', ''diff'', ''feature-branch'']]"
        and pt = PromptCodeReview]
    by (simp add: runDiffOnCli_env_ollama_down)
      (simp add: cfg_ollama_def cfg_openai_def env_ollama_down_def env_ok_def modelConfig_def)
  have p: "cfgPlatform cfg_openai = ''openai''"
    by (simp add: cfg_openai_def)
  have n: "NewOpenAi env_model_fails (modelConfig cfg_openai) = ''openai gpt-4o''"
    by (simp add: cfg_openai_def env_model_fails_def env_ok_def modelConfig_def)
  have c: "Do env_model_fails PromptTestCase cfg_openai =
     (([], Some (Foreign ''status code: 401'')),
      [CmdRun [''git'', ''diff'', ''feature-branch''],
       Println ''System Prompt:'', Println (getPrompt PromptTestCase),
       Println ''User Prompt:'', Println ''diff against the working tree'',
       NewOpenAiCall (modelConfig cfg_openai),
       ExecPromptCall ''openai gpt-4o'' Background (getPrompt PromptTestCase)
         ''diff against the working tree''])"
    using Do_error_propagation [where w = env_model_fails and c = cfg_openai
        and userPrompt = "''diff against the working tree''"
        and err = "Foreign ''status code: 401''" and runtime = "''openai gpt-4o''"
        and ev = "NewOpenAiCall (modelConfig cfg_openai)"
        and response = "\<lparr> Content = [] \<rparr>"
        and ?t1.0 = "[CmdRun [''git'', ''diff'', ''feature-branch'']]"
        and pt = PromptTestCase]
      constructedI_openai [OF p, of env_model_fails]
    by (simp add: runDiffOnCli_env_model_fails n) (simp add: env_model_fails_def)
  from a u b c show ?thesis by simp
qed

text \<open>
  C3 as stated fails: with the unknown platform \<^verbatim>\<open>bogus\<close> and a \<^verbatim>\<open>git\<close> command that
  fails, \<open>Do\<close> returns the command's error, which does not wrap \<open>ErrUnknownPlatform\<close>:
  the diff is computed before the platform is looked at.
\<close>

theorem Do_unknown_platform_counterexample:
  "cfgPlatform cfg_bogus \<notin> {''openai'', ''ollama''} \<and>
   fst (Do env_git_fails PromptCommitMessage cfg_bogus) = ([], Some (Foreign ''exit status 128'')) \<and>
   \<not> errors_Is (Foreign ''exit status 128'') ErrUnknownPlatform"
proof -
  have "fst (Do env_git_fails PromptCommitMessage cfg_bogus) =
      ([], Some (Foreign ''exit status 128''))"
    by (simp add: Do_diff_failed [OF runDiffOnCli_env_git_fails])
  then show ?thesis
    by (simp add: cfg_bogus_def)
qed

text \<open>
  C3, amended. For every configuration whose platform is neither \<^verbatim>\<open>openai\<close> nor
  \<^verbatim>\<open>ollama\<close>, \<open>Do\<close> constructs no backend, makes no backend call and returns the empty
  string with an error: when the diff succeeds, the error
  \<^verbatim>\<open>unknown platform <platform> - unknown platform\<close> wrapping \<open>ErrUnknownPlatform\<close>; when
  the diff fails, the error of the diff.
\<close>

theorem Do_unknown_platform:
  assumes "cfgPlatform c \<notin> {''openai'', ''ollama''}"
  shows "filter is_construction (snd (Do w pt c)) = [] \<and>
    filter is_ExecPromptCall (snd (Do w pt c)) = [] \<and>
    fst (fst (Do w pt c)) = [] \<and>
    (snd (fst (runDiffOnCli w c)) = None \<longrightarrow>
       snd (fst (Do w pt c)) = Some (Errorf_unknown_platform (cfgPlatform c) ErrUnknownPlatform) \<and>
       errors_Is (Errorf_unknown_platform (cfgPlatform c) ErrUnknownPlatform) ErrUnknownPlatform \<and>
       Error (Errorf_unknown_platform (cfgPlatform c) ErrUnknownPlatform) =
         ''unknown platform '' @ cfgPlatform c @ '' - unknown platform'') \<and>
    (snd (fst (runDiffOnCli w c)) \<noteq> None \<longrightarrow>
       snd (fst (Do w pt c)) = snd (fst (runDiffOnCli w c)))"
proof -
  from assms have p: "cfgPlatform c \<noteq> ''openai''" "cfgPlatform c \<noteq> ''ollama''"
    by simp_all
  obtain s e t1 where r: "runDiffOnCli w c = ((s, e), t1)"
    by (metis prod.exhaust)
  obtain argv where t1: "t1 = [CmdRun argv]"
    using runDiffOnCli_trace [of w c] r by simp
  show ?thesis
  proof (cases e)
    case (Some err)
    from Do_diff_failed [OF r [unfolded Some], of pt] show ?thesis
      by (simp add: r Some t1)
  next
    case None
    from Do_platform_default [OF r [unfolded None] p, of pt] show ?thesis
      by (simp add: r None t1 errors_Is_unknown_platform) (simp add: Errorf_unknown_platform_def)
  qed
qed

theorem Do_unknown_platform_witness:
  "cfgPlatform cfg_bogus \<notin> {''openai'', ''ollama''} \<and>
   fst (Do env_ok PromptCommitMessage cfg_bogus) =
     ([], Some (Wrapped ''unknown platform bogus - unknown platform'' ErrUnknownPlatform)) \<and>
   filter is_construction (snd (Do env_ok PromptCommitMessage cfg_bogus)) = [] \<and>
   filter is_ExecPromptCall (snd (Do env_ok PromptCommitMessage cfg_bogus)) = [] \<and>
   fst (Do env_git_fails PromptCommitMessage cfg_bogus) = ([], Some (Foreign ''exit status 128'')) \<and>
   filter is_construction (snd (Do env_git_fails PromptCommitMessage cfg_bogus)) = []"
proof -
  have p: "cfgPlatform cfg_bogus \<notin> {''openai'', ''ollama''}"
    by (simp add: cfg_bogus_def)
  have n: "cfgPlatform cfg_bogus = ''bogus''"
    by (simp add: cfg_bogus_def)
  from Do_unknown_platform [OF p, of env_ok PromptCommitMessage]
    Do_unknown_platform [OF p, of env_git_fails PromptCommitMessage] p
  show ?thesis
    by (simp add: runDiffOnCli_env_ok_bogus runDiffOnCli_env_git_fails prod_eq_iff n
        Errorf_unknown_platform_def)
qed

text \<open>
  C6 as stated fails: \<open>Do\<close> has no context among its arguments, and the context it
  hands to \<^verbatim>\<open>ExecPrompt\<close> is \<^verbatim>\<open>context.Background()\<close>, which has no deadline and cannot be
  cancelled, whatever timeout the configuration carries.
\<close>

theorem Do_context_counterexample:
  "exec_contexts (snd (Do env_ok PromptCommitMessage cfg_openai)) = [Background] \<and>
   exec_contexts (snd (Do env_ok PromptCommitMessage
      (cfg_openai \<lparr> cfgPromptRequestTimeoutSeconds := 5 \<rparr>))) = [Background] \<and>
   \<not> has_deadline Background \<and> \<not> cancellable Background"
proof -
  have p: "cfgPlatform cfg_openai = ''openai''"
    by (simp add: cfg_openai_def)
  from Do_exec_ok [OF runDiffOnCli_env_ok_openai constructedI_openai [OF p],
      of PromptCommitMessage "\<lparr> Content = ''update a.txt'' \<rparr>"]
  have a: "exec_contexts (snd (Do env_ok PromptCommitMessage cfg_openai)) = [Background]"
    by (simp add: env_ok_def)
  have r: "runDiffOnCli env_ok (cfg_openai \<lparr> cfgPromptRequestTimeoutSeconds := 5 \<rparr>) =
     ((''diff against the working tree'', None), [CmdRun [''git'', ''diff'', ''feature-branch'']])"
    by (simp add: runDiffOnCli_def Let_def cfg_openai_def env_ok_def)
  have p': "cfgPlatform (cfg_openai \<lparr> cfgPromptRequestTimeoutSeconds := 5 \<rparr>) = ''openai''"
    by (simp add: cfg_openai_def)
  from Do_exec_ok [OF r constructedI_openai [OF p'],
      of PromptCommitMessage "\<lparr> Content = ''update a.txt'' \<rparr>"]
  have b: "exec_contexts (snd (Do env_ok PromptCommitMessage
      (cfg_openai \<lparr> cfgPromptRequestTimeoutSeconds := 5 \<rparr>))) = [Background]"
    by (simp add: env_ok_def)
  from a b show ?thesis by simp
qed

text \<open>
  C6, amended. Whenever \<open>Do\<close> calls the backend, and so whenever it returns without an
  error, the contexts of its \<^verbatim>\<open>ExecPrompt\<close> calls are the single
  \<^verbatim>\<open>context.Background()\<close>, which has no deadline and cannot be cancelled; it is taken
  from no argument of \<open>Do\<close>.
\<close>

theorem Do_context_is_background:
  "(filter is_ExecPromptCall (snd (Do w pt c)) \<noteq> [] \<longrightarrow>
      exec_contexts (snd (Do w pt c)) = [Background]) \<and>
   (snd (fst (Do w pt c)) = None \<longrightarrow> exec_contexts (snd (Do w pt c)) = [Background]) \<and>
   \<not> has_deadline Background \<and> \<not> cancellable Background"
  by (cases rule: Do_cases [where w = w and pt = pt and c = c]) auto

theorem Do_context_is_background_witness:
  "snd (fst (Do env_ok PromptCommitMessage cfg_ollama)) = None \<and>
   exec_contexts (snd (Do env_ok PromptCommitMessage cfg_ollama)) = [Background]"
proof -
  have r: "runDiffOnCli env_ok cfg_ollama =
     ((''diff against the working tree'', None), [CmdRun [''git'', ''diff'', ''feature-branch'']])"
    by (simp add: runDiffOnCli_def Let_def cfg_ollama_def cfg_openai_def env_ok_def)
  have p: "cfgPlatform cfg_ollama = ''ollama''"
    by (simp add: cfg_ollama_def)
  have n: "NewOllamaAi env_ok (modelConfig cfg_ollama) = (''ollama llama3'', None)"
    by (simp add: env_ok_def modelConfig_def cfg_ollama_def)
  from Do_exec_ok [OF r constructedI_ollama [OF p n], of PromptCommitMessage
      "\<lparr> Content = ''update a.txt'' \<rparr>"]
  have "snd (fst (Do env_ok PromptCommitMessage cfg_ollama)) = None"
    by (simp add: env_ok_def)
  with Do_context_is_background [of env_ok PromptCommitMessage cfg_ollama]
  show ?thesis by simp
qed

text \<open>
  C10 as stated fails: with an empty destination and the source string \<^verbatim>\<open>--cached\<close>,
  the one command \<open>Do\<close> runs is \<^verbatim>\<open>git diff --cached\<close>, which compares the head commit
  with the index: the comparison is against the head commit, and the working tree
  takes no part in it.
\<close>

theorem Do_uses_cli_only_counterexample:
  "DestinationRef cfg_cached = [] \<and>
   filter is_CmdRun (snd (Do env_ok PromptCommitMessage cfg_cached)) =
     [CmdRun [''git'', ''diff'', ''--cached'']] \<and>
   git_diff_sides reads_example [''git'', ''diff'', ''--cached''] = Some (Commit ''HEAD'', Index)"
proof -
  have d: "DestinationRef cfg_cached = []" and s: "SourceRef cfg_cached = ''--cached''"
    by (simp_all add: cfg_cached_def cfg_openai_def)
  from Do_commands [of env_ok PromptCommitMessage cfg_cached] runDiffOnCli_trace [of env_ok cfg_cached]
  have "filter is_CmdRun (snd (Do env_ok PromptCommitMessage cfg_cached)) =
      [CmdRun [''git'', ''diff'', ''--cached'']]"
    by (simp add: d s)
  with d show ?thesis
    by (simp add: git_diff_single_def)
qed

text \<open>
  C10, amended. \<open>Do\<close> obtains the diff through \<open>runDiffOnCli\<close> alone: the commands in
  its trace are those of \<open>runDiffOnCli\<close>; its trace holds no event of the go-git path,
  of which every call of \<open>runDiffWithGoGit\<close> leaves one first; and its outcome stays
  the same when everything the go-git path reads from the environment is replaced.
  With an empty destination the one command run is \<^verbatim>\<open>git diff\<close> with the source string
  alone, and \<open>Do\<close> never reads the head reference itself. When the source string does
  not begin with a dash and the tool reads it as a revision or as a path, the
  comparison leads to the working tree. Nothing is said of a source string the tool
  reads otherwise.
\<close>

theorem Do_uses_cli_only:
  "filter is_gogit_event (snd (Do w pt c)) = [] \<and>
   filter is_CmdRun (snd (Do w pt c)) = snd (runDiffOnCli w c) \<and>
   Do (w \<lparr> os_Getwd := g, git_PlainOpenWithOptions := p, ReferenceName_Validate := v,
            Tree_Diff := d, Changes_String := s \<rparr>) pt c = Do w pt c \<and>
   take 1 (snd (runDiffWithGoGit w c)) = [Getwd] \<and>
   (DestinationRef c = [] \<longrightarrow>
      filter is_CmdRun (snd (Do w pt c)) = [CmdRun [''git'', ''diff'', SourceRef c]]) \<and>
   (DestinationRef c = [] \<and> take 1 (SourceRef c) \<noteq> ''-'' \<and> reads (SourceRef c) \<noteq> Unread \<longrightarrow>
      filter is_CmdRun (snd (Do w pt c)) = [CmdRun [''git'', ''diff'', SourceRef c]] \<and>
      map_option snd (git_diff_sides reads [''git'', ''diff'', SourceRef c]) = Some WorkingTree)"
proof -
  note a = Do_commands [of w pt c]
  have b: "Do (w \<lparr> os_Getwd := g, git_PlainOpenWithOptions := p, ReferenceName_Validate := v,
            Tree_Diff := d, Changes_String := s \<rparr>) pt c = Do w pt c"
    by (rule Do_env_cong) simp_all
  have e: "map_option snd (git_diff_sides reads [''git'', ''diff'', SourceRef c]) = Some WorkingTree"
    if "take 1 (SourceRef c) \<noteq> ''-''" "reads (SourceRef c) \<noteq> Unread"
  proof -
    from that(1) have "SourceRef c \<noteq> ''--cached''" "SourceRef c \<noteq> ''--staged''"
      by auto
    with that show ?thesis
      by (cases "reads (SourceRef c)") (simp_all add: git_diff_single_def)
  qed
  from a b e runDiffOnCli_trace [of w c] runDiffWithGoGit_leaves_Getwd [of w c]
  show ?thesis by simp
qed

theorem Do_uses_cli_only_witness:
  "DestinationRef cfg_openai = [] \<and>
   take 1 (SourceRef cfg_openai) \<noteq> ''-'' \<and>
   reads_example (SourceRef cfg_openai) \<noteq> Unread \<and>
   filter is_CmdRun (snd (Do env_ok PromptCommitMessage cfg_openai)) =
     [CmdRun [''git'', ''diff'', ''feature-branch'']] \<and>
   filter is_gogit_event (snd (Do env_ok PromptCommitMessage cfg_openai)) = [] \<and>
   git_diff_sides reads_example [''git'', ''diff'', ''feature-branch''] =
     Some (Commit ''feature-branch'', WorkingTree)"
proof -
  have d: "DestinationRef cfg_openai = []"
    by (simp add: cfg_openai_def)
  have s: "SourceRef cfg_openai = ''feature-branch''"
    by (simp add: cfg_openai_def)
  have r: "reads_example ''feature-branch'' = Revision"
    by (simp add: reads_example_def)
  have g: "git_diff_sides reads_example [''git'', ''diff'', ''feature-branch''] =
     Some (Commit ''feature-branch'', WorkingTree)"
    by (simp add: git_diff_single_def r)
  from Do_uses_cli_only [where w = env_ok and pt = PromptCommitMessage and c = cfg_openai
      and g = "Inl (Foreign ''no working directory'')"
      and p = "\<lambda>dir detect. Inl (Foreign ''repository does not exist'')"
      and v = "\<lambda>n. None" and d = "\<lambda>from to. Inr []" and s = "\<lambda>cs. []"
      and reads = reads_example] d s r g
  show ?thesis by auto
qed

subsection \<open>The direct-repository-read diff provider\<close>

text \<open>
  C4 holds of a repository whose \<^verbatim>\<open>HEAD\<close> file holds a commit hash, and fails on one
  checked out on a branch. In \<open>repo_on_branch\<close> the head commit is commit 1, reached
  by resolving \<^verbatim>\<open>HEAD\<close>; with an empty destination \<open>runDiffWithGoGit\<close> reads \<^verbatim>\<open>HEAD\<close>
  unresolved, takes the zero hash of the symbolic reference for a commit hash and
  returns the empty string with \<open>ErrObjectNotFound\<close>, where the claim has the diff
  between commit 1 and commit 2. With the destination \<^verbatim>\<open>HEAD\<close> written out, which goes
  through \<^verbatim>\<open>repo.Reference(name, true)\<close> as the source reference does, the same
  comparison succeeds.
\<close>

theorem runDiffWithGoGit_head_on_branch:
  "Storer_Reference repo_on_branch HEAD = Inr (SymbolicReference ''HEAD'' ''refs/heads/main'') \<and>
   Repository_Reference repo_on_branch HEAD True = Inr (HashReference ''refs/heads/main'' 1) \<and>
   Reference_Hash (SymbolicReference ''HEAD'' ''refs/heads/main'') = ZeroHash \<and>
   CommitObject repo_on_branch ZeroHash = Inl ErrObjectNotFound \<and>
   fst (runDiffWithGoGit env_ok (cfg_openai \<lparr> SourceRef := ''refs/heads/feature'' \<rparr>)) =
     ([], Some ErrObjectNotFound) \<and>
   fst (runDiffWithGoGit env_ok
         (cfg_openai \<lparr> SourceRef := ''refs/heads/feature'', DestinationRef := ''HEAD'' \<rparr>)) =
     (''[<Action: Modify, Path: a.txt>]'', None)"
  by (simp add: runDiffWithGoGit_def diffRefs_def on_ok_def Repository_Reference_def
      ResolveReference_def Commit_Tree_def HEAD_def ZeroHash_def MaxResolveRecursion_def
      repo_on_branch_def env_ok_def cfg_openai_def)

end
